theory Spec2Isabelle
  imports Complex_Main "HOL-Library.AList"
begin

section \<open>JavaScript values\<close>

text \<open>
  The handlers of \<^verbatim>\<open>index.js\<close> work on parsed JSON and on the objects that the two
  provider SDKs return. A value is one of JavaScript's primitives, an array or an object;
  an object is the list of its own properties in the order of their enumeration. Numbers are rationals:
  the rounding of IEEE doubles and the value NaN are outside the model.
\<close>

datatype jsval =
    Undefined
  | Null
  | Bool bool
  | Num rat
  | Str string
  | Arr "jsval list"
  | Obj "(string \<times> jsval) list"

text \<open>\<^verbatim>\<open>if (v)\<close>, \<^verbatim>\<open>!v\<close>, \<^verbatim>\<open>a || b\<close>: JavaScript's ToBoolean.\<close>

fun truthy :: "jsval \<Rightarrow> bool" where
  "truthy Undefined = False"
| "truthy Null = False"
| "truthy (Bool b) = b"
| "truthy (Num n) = (n \<noteq> 0)"
| "truthy (Str s) = (s \<noteq> [])"
| "truthy (Arr xs) = True"
| "truthy (Obj kvs) = True"

fun nullish :: "jsval \<Rightarrow> bool" where
  "nullish Undefined = True"
| "nullish Null = True"
| "nullish v = False"

text \<open>\<^verbatim>\<open>a || b\<close> and \<^verbatim>\<open>a ?? b\<close>; every right operand in the program is free of effects.\<close>

definition js_or :: "jsval \<Rightarrow> jsval \<Rightarrow> jsval" where
  "js_or a b = (if truthy a then a else b)"

definition js_coalesce :: "jsval \<Rightarrow> jsval \<Rightarrow> jsval" where
  "js_coalesce a b = (if nullish a then b else a)"

text \<open>
  \<^verbatim>\<open>a === b\<close>. Primitives are compared by value. Arrays and objects are compared by
  reference; the program only compares a provider's result with the caller's identity,
  which are never the same reference.
\<close>

fun strict_eq :: "jsval \<Rightarrow> jsval \<Rightarrow> bool" where
  "strict_eq Undefined Undefined = True"
| "strict_eq Null Null = True"
| "strict_eq (Bool a) (Bool b) = (a = b)"
| "strict_eq (Num a) (Num b) = (a = b)"
| "strict_eq (Str a) (Str b) = (a = b)"
| "strict_eq a b = False"

text \<open>
  A thrown error: whether it is an instance of the webhook SDK's
  \<^verbatim>\<open>WebhookVerificationError\<close>, its \<^verbatim>\<open>name\<close> and its \<^verbatim>\<open>message\<close>.
\<close>

datatype js_error =
  JsError (instanceof_WebhookVerificationError: bool) (error_name: string) (error_message: string)

definition TypeError :: "string \<Rightarrow> js_error" where
  "TypeError k = JsError False ''TypeError'' (''Cannot read properties of undefined or null, reading '' @ k)"

text \<open>
  Reading the property \<open>k\<close> of a value that is neither \<^verbatim>\<open>undefined\<close> nor \<^verbatim>\<open>null\<close>. The
  program reads only data properties named by identifiers (never \<^verbatim>\<open>length\<close>, an index or
  a member of a prototype) through this function, so a value other than an object has none.
\<close>

fun property :: "jsval \<Rightarrow> string \<Rightarrow> jsval" where
  "property (Obj kvs) k = (case map_of kvs k of Some v \<Rightarrow> v | None \<Rightarrow> Undefined)"
| "property v k = Undefined"

text \<open>\<^verbatim>\<open>v.k\<close> throws a TypeError on \<^verbatim>\<open>undefined\<close> and \<^verbatim>\<open>null\<close>; \<^verbatim>\<open>v?.k\<close> gives \<^verbatim>\<open>undefined\<close> there.\<close>

definition get_prop :: "jsval \<Rightarrow> string \<Rightarrow> js_error + jsval" where
  "get_prop v k = (if nullish v then Inl (TypeError k) else Inr (property v k))"

definition opt_prop :: "jsval \<Rightarrow> string \<Rightarrow> jsval" where
  "opt_prop v k = (if nullish v then Undefined else property v k)"

text \<open>Array indices as property names.\<close>

function string_of_nat :: "nat \<Rightarrow> string" where
  "string_of_nat n =
     (if n < 10 then [char_of (48 + n)]
      else string_of_nat (n div 10) @ [char_of (48 + n mod 10)])"
  by pat_completeness auto
termination
  by (relation "measure id") auto

text \<open>
  The own enumerable properties that \<^verbatim>\<open>{...v}\<close> copies: those of an object, the indexed
  elements of an array, the indexed characters of a string, none of any other value.
\<close>

fun spread :: "jsval \<Rightarrow> (string \<times> jsval) list" where
  "spread (Obj kvs) = kvs"
| "spread (Arr xs) = zip (map string_of_nat [0..<length xs]) xs"
| "spread (Str s) = zip (map string_of_nat [0..<length s]) (map (\<lambda>c. Str [c]) s)"
| "spread v = []"

text \<open>\<^verbatim>\<open>Object.keys(v)\<close>, which throws on \<^verbatim>\<open>undefined\<close> and \<^verbatim>\<open>null\<close>.\<close>

definition Object_keys :: "jsval \<Rightarrow> js_error + string list" where
  "Object_keys v =
     (if nullish v then Inl (JsError False ''TypeError'' ''Cannot convert undefined or null to object'')
      else Inr (map fst (spread v)))"

section \<open>Requests, responses and the two providers\<close>

text \<open>
  A request as the handlers see it: the parsed (or raw) body, the headers, and the
  \<^verbatim>\<open>userId\<close> that \<^verbatim>\<open>getAuth(req)\<close> of the identity provider's middleware reports
  (\<^verbatim>\<open>null\<close> when the request carries no valid bearer token).
\<close>

record request =
  req_body :: jsval
  req_headers :: jsval
  getAuth_userId :: jsval

datatype payload = Send string | Json jsval

record response =
  status :: nat
  sent :: payload

text \<open>The environment variables the handlers read.\<close>

record config =
  FRONTEND_URL :: "string option"
  POLAR_WEBHOOK_SECRET :: "string option"

text \<open>\<^verbatim>\<open>process.env.X\<close> as a value, and inside a template literal.\<close>

fun env_value :: "string option \<Rightarrow> jsval" where
  "env_value None = Undefined"
| "env_value (Some s) = Str s"

fun env_text :: "string option \<Rightarrow> string" where
  "env_text None = ''undefined''"
| "env_text (Some s) = s"

text \<open>
  A product of the payments provider's catalogue, with the fields the product lister
  reads, typed as the provider's SDK declares them: \<^verbatim>\<open>prices\<close> and \<^verbatim>\<open>benefits\<close> are arrays (or
  absent, which the handler allows for), the name is a string. The shape of a price object
  varies with the kind of price, so a price is any value.
\<close>

record product =
  product_id :: jsval
  product_name :: string
  product_description :: jsval
  prices :: "jsval list option"
  benefits :: "jsval list option"

text \<open>Every call to a provider's client, with its arguments, in the order made.\<close>

datatype provider_call =
    Polar_checkouts_get jsval
  | Polar_checkouts_create jsval
  | Polar_customerSessions_create jsval
  | Polar_products_list jsval
  | Clerk_users_getUser jsval
  | Clerk_users_updateUserMetadata jsval jsval

text \<open>
  The SDK functions are not part of the repository, so the handlers take them as
  parameters: each returns a value or throws. The payments provider is consulted at most
  once per request and is a function of its argument; the identity provider's functions
  read and change its store of users, of type \<open>'s\<close>. The product listing returns the items
  of its page (\<^verbatim>\<open>response.result?.items\<close>), \<open>None\<close> when the page has none.
\<close>

record 's providers =
  validateEvent :: "jsval \<Rightarrow> jsval \<Rightarrow> jsval \<Rightarrow> js_error + jsval"
  polar_checkouts_get :: "jsval \<Rightarrow> js_error + jsval"
  polar_checkouts_create :: "jsval \<Rightarrow> js_error + jsval"
  polar_customerSessions_create :: "jsval \<Rightarrow> js_error + jsval"
  polar_products_list :: "jsval \<Rightarrow> js_error + product list option"
  clerk_users_getUser :: "'s \<Rightarrow> jsval \<Rightarrow> js_error + jsval"
  clerk_users_updateUserMetadata :: "'s \<Rightarrow> jsval \<Rightarrow> jsval \<Rightarrow> js_error + 's"

text \<open>
  The world outside the process: the identity provider's store and the calls made so far.
  What the handlers write to the console is not part of it.
\<close>

record 's world =
  clerk :: 's
  calls :: "provider_call list"

subsection \<open>Effects: a computation changes the world and returns or throws\<close>

type_synonym ('s, 'a) io = "'s world \<Rightarrow> (js_error + 'a) \<times> 's world"

definition ret :: "'a \<Rightarrow> ('s, 'a) io" where
  "ret x w = (Inr x, w)"

definition lift :: "js_error + 'a \<Rightarrow> ('s, 'a) io" where
  "lift r w = (r, w)"

definition bind :: "('s, 'a) io \<Rightarrow> ('a \<Rightarrow> ('s, 'b) io) \<Rightarrow> ('s, 'b) io" where
  "bind m f w = (case m w of (Inl e, w') \<Rightarrow> (Inl e, w') | (Inr x, w') \<Rightarrow> f x w')"

definition record_call :: "provider_call \<Rightarrow> 's world \<Rightarrow> 's world" where
  "record_call c w = w\<lparr>calls := calls w @ [c]\<rparr>"

definition await_polar :: "provider_call \<Rightarrow> js_error + jsval \<Rightarrow> ('s, jsval) io" where
  "await_polar c r w = (r, record_call c w)"

definition await_getUser :: "'s providers \<Rightarrow> jsval \<Rightarrow> ('s, jsval) io" where
  "await_getUser P userId w =
     (clerk_users_getUser P (clerk w) userId, record_call (Clerk_users_getUser userId) w)"

definition await_updateUserMetadata :: "'s providers \<Rightarrow> jsval \<Rightarrow> jsval \<Rightarrow> ('s, unit) io" where
  "await_updateUserMetadata P userId params w =
     (case clerk_users_updateUserMetadata P (clerk w) userId params of
        Inl e \<Rightarrow> (Inl e, record_call (Clerk_users_updateUserMetadata userId params) w)
      | Inr s' \<Rightarrow> (Inr (), record_call (Clerk_users_updateUserMetadata userId params) (w\<lparr>clerk := s'\<rparr>)))"

section \<open>POST /webhook\<close>

text \<open>The branch for \<^verbatim>\<open>subscription.active\<close> (both variants of the source).\<close>

definition subscription_active :: "'s providers \<Rightarrow> jsval \<Rightarrow> ('s, unit) io" where
  "subscription_active P event =
     bind (lift (get_prop event ''data'')) (\<lambda>subscription.
     bind (lift (get_prop subscription ''checkoutId'')) (\<lambda>checkoutId.
     if truthy checkoutId then
       bind (await_polar (Polar_checkouts_get (Obj [(''id'', checkoutId)]))
               (polar_checkouts_get P (Obj [(''id'', checkoutId)]))) (\<lambda>checkout.
       bind (lift (get_prop checkout ''customerMetadata'')) (\<lambda>customerMetadata.
       let clerkUserId = opt_prop customerMetadata ''clerk_user_id'' in
       if truthy clerkUserId then
         bind (lift (get_prop subscription ''id'')) (\<lambda>subscription_id.
         bind (lift (get_prop subscription ''customerId'')) (\<lambda>subscription_customerId.
         await_updateUserMetadata P clerkUserId
           (Obj [(''publicMetadata'',
              Obj [(''subscriptionId'', subscription_id),
                   (''customerId'', subscription_customerId),
                   (''plan'', Str ''pro''),
                   (''status'', Str ''active'')])])))
       else ret ()))
     else ret ()))"

text \<open>The branch for \<^verbatim>\<open>subscription.revoked\<close> (\<^verbatim>\<open>index.js\<close> only).\<close>

definition subscription_revoked :: "'s providers \<Rightarrow> jsval \<Rightarrow> ('s, unit) io" where
  "subscription_revoked P event =
     bind (lift (get_prop event ''data'')) (\<lambda>subscription.
     bind (lift (get_prop subscription ''checkoutId'')) (\<lambda>checkoutId.
     if truthy checkoutId then
       bind (await_polar (Polar_checkouts_get (Obj [(''id'', checkoutId)]))
               (polar_checkouts_get P (Obj [(''id'', checkoutId)]))) (\<lambda>checkout.
       bind (lift (get_prop checkout ''customerMetadata'')) (\<lambda>customerMetadata.
       let clerkUserId = opt_prop customerMetadata ''clerk_user_id'' in
       if truthy clerkUserId then
         bind (await_getUser P clerkUserId) (\<lambda>user.
         bind (lift (get_prop user ''publicMetadata'')) (\<lambda>publicMetadata.
         let currentMetadata = js_or publicMetadata (Obj []) in
         bind (lift (get_prop currentMetadata ''subscriptionId'')) (\<lambda>current_subscriptionId.
         bind (lift (get_prop subscription ''id'')) (\<lambda>subscription_id.
         bind (lift (get_prop subscription ''customerId'')) (\<lambda>subscription_customerId.
         await_updateUserMetadata P clerkUserId
           (Obj [(''publicMetadata'',
              Obj (AList.update ''status'' (Str ''revoked'')
                  (AList.update ''plan'' (Str ''free'')
                  (AList.update ''customerId'' subscription_customerId
                  (AList.update ''subscriptionId'' (js_or current_subscriptionId subscription_id)
                  (spread currentMetadata))))))]))))))
       else ret ()))
     else ret ()))"

text \<open>The \<^verbatim>\<open>catch\<close> block of the webhook handler.\<close>

definition webhook_catch :: "js_error \<Rightarrow> response" where
  "webhook_catch error =
     (if instanceof_WebhookVerificationError error
      then \<lparr>status = 403, sent = Send ''''\<rparr>
      else \<lparr>status = 500, sent = Send ''Internal Server Error''\<rparr>)"

definition when_type :: "jsval \<Rightarrow> string \<Rightarrow> ('s, unit) io \<Rightarrow> ('s, unit) io" where
  "when_type event_type t m = (if strict_eq event_type (Str t) then m else ret ())"

text \<open>The \<^verbatim>\<open>try\<close> block of the handler in \<^verbatim>\<open>index.js\<close> (the second variant).\<close>

definition webhook_try :: "'s providers \<Rightarrow> config \<Rightarrow> request \<Rightarrow> ('s, response) io" where
  "webhook_try P env req =
     bind (lift (validateEvent P (req_body req) (req_headers req)
             (env_value (POLAR_WEBHOOK_SECRET env)))) (\<lambda>event.
     bind (lift (get_prop event ''type'')) (\<lambda>event_type.
     bind (when_type event_type ''subscription.active'' (subscription_active P event)) (\<lambda>_.
     bind (lift (get_prop event ''type'')) (\<lambda>event_type'.
     bind (when_type event_type' ''subscription.revoked'' (subscription_revoked P event)) (\<lambda>_.
     ret \<lparr>status = 202, sent = Send ''''\<rparr>)))))"

definition webhook :: "'s providers \<Rightarrow> config \<Rightarrow> request \<Rightarrow> 's world \<Rightarrow> response \<times> 's world" where
  "webhook P env req w =
     (case webhook_try P env req w of
        (Inr res, w') \<Rightarrow> (res, w')
      | (Inl error, w') \<Rightarrow> (webhook_catch error, w'))"



section \<open>GET /test-auth and GET /api/create-portal-session\<close>

definition unauthorized :: response where
  "unauthorized = \<lparr>status = 401, sent = Json (Obj [(''error'', Str ''Unauthorized: No userId found'')])\<rparr>"

definition test_auth :: "request \<Rightarrow> 's world \<Rightarrow> response \<times> 's world" where
  "test_auth req w =
     (let userId = getAuth_userId req in
      if \<not> truthy userId then (unauthorized, w)
      else (\<lparr>status = 200, sent = Json (Obj [(''userId'', userId)])\<rparr>, w))"

definition create_portal_session_try :: "'s providers \<Rightarrow> request \<Rightarrow> ('s, response) io" where
  "create_portal_session_try P req =
     (let userId = getAuth_userId req in
      if \<not> truthy userId then ret unauthorized
      else
        bind (await_getUser P userId) (\<lambda>user.
        bind (lift (get_prop user ''publicMetadata'')) (\<lambda>publicMetadata.
        let polarCustomerId = opt_prop publicMetadata ''customerId'' in
        if \<not> truthy polarCustomerId then
          ret \<lparr>status = 404,
               sent = Json (Obj [(''error'', Str ''No active subscription found for this user.'')])\<rparr>
        else
          bind (await_polar (Polar_customerSessions_create (Obj [(''customerId'', polarCustomerId)]))
                  (polar_customerSessions_create P (Obj [(''customerId'', polarCustomerId)]))) (\<lambda>session.
          bind (lift (get_prop session ''customerPortalUrl'')) (\<lambda>customerPortalUrl.
          ret \<lparr>status = 200, sent = Json (Obj [(''url'', customerPortalUrl)])\<rparr>)))))"

definition create_portal_session ::
  "'s providers \<Rightarrow> request \<Rightarrow> 's world \<Rightarrow> response \<times> 's world" where
  "create_portal_session P req w =
     (case create_portal_session_try P req w of
        (Inr res, w') \<Rightarrow> (res, w')
      | (Inl error, w') \<Rightarrow> (\<lparr>status = 500, sent = Send ''Failed to generate portal session''\<rparr>, w'))"

section \<open>POST /create-checkout\<close>

text \<open>
  \<^verbatim>\<open>!req.body || Object.keys(req.body).length === 0\<close>. \<^verbatim>\<open>Object.keys\<close> is reached only for
  a truthy body, where it does not throw.
\<close>

definition body_missing_or_empty :: "jsval \<Rightarrow> bool" where
  "body_missing_or_empty b =
     (\<not> truthy b \<or> (case Object_keys b of Inr ks \<Rightarrow> length ks = 0 | Inl e \<Rightarrow> False))"

text \<open>
  The options passed to the payments provider: the object literal with its two spreads,
  then \<^verbatim>\<open>delete checkoutOptions.customer_metadata\<close>. The body is truthy where the options
  are built, so reading its properties does not throw.
\<close>

definition checkoutOptions :: "config \<Rightarrow> jsval \<Rightarrow> jsval \<Rightarrow> (string \<times> jsval) list" where
  "checkoutOptions env b userId =
     AList.delete ''customer_metadata''
       (AList.update ''customerMetadata''
          (Obj (AList.update ''clerk_user_id'' userId
                  (spread (js_or (js_or (property b ''customerMetadata'')
                                        (property b ''customer_metadata''))
                                 (Obj [])))))
       (AList.update ''successUrl''
          (Str (env_text (FRONTEND_URL env) @ ''/?payment=success&checkout_id={CHECKOUT_ID}''))
       (spread b)))"

definition create_checkout_try :: "'s providers \<Rightarrow> config \<Rightarrow> jsval \<Rightarrow> jsval \<Rightarrow> ('s, response) io" where
  "create_checkout_try P env b userId =
     bind (await_polar (Polar_checkouts_create (Obj (checkoutOptions env b userId)))
             (polar_checkouts_create P (Obj (checkoutOptions env b userId)))) (\<lambda>result.
     bind (lift (get_prop result ''customerMetadata'')) (\<lambda>customerMetadata.
     if strict_eq (opt_prop customerMetadata ''clerk_user_id'') userId
     then ret \<lparr>status = 200, sent = Json result\<rparr>
     else ret \<lparr>status = 201, sent = Json result\<rparr>))"

definition create_checkout_catch :: "js_error \<Rightarrow> response" where
  "create_checkout_catch error =
     (if error_name error = ''SDKValidationError''
      then \<lparr>status = 422,
            sent = Json (Obj [(''error'', Str ''Input validation failed''),
                              (''details'', Str (error_message error))])\<rparr>
      else \<lparr>status = 500, sent = Json (Obj [(''error'', Str ''Failed to create checkout session'')])\<rparr>)"

definition create_checkout ::
  "'s providers \<Rightarrow> config \<Rightarrow> request \<Rightarrow> 's world \<Rightarrow> response \<times> 's world" where
  "create_checkout P env req w =
     (if body_missing_or_empty (req_body req) then
        (\<lparr>status = 400, sent = Json (Obj [(''error'', Str ''Request body is missing or empty'')])\<rparr>, w)
      else
        let userId = getAuth_userId req in
        if \<not> truthy userId then (unauthorized, w)
        else
          (case create_checkout_try P env (req_body req) userId w of
             (Inr res, w') \<Rightarrow> (res, w')
           | (Inl error, w') \<Rightarrow> (create_checkout_catch error, w')))"

section \<open>GET /api/products\<close>

text \<open>
  \<^verbatim>\<open>rawAmount / 100\<close>. The quotient of a number is computed; for any other value
  JavaScript first converts the value to a number, and the quotient is left as it stands.
\<close>

datatype quotient = Amount rat | Div100_of jsval

fun div100 :: "jsval \<Rightarrow> quotient" where
  "div100 (Num n) = Amount (n / 100)"
| "div100 v = Div100_of v"

text \<open>\<^verbatim>\<open>toUpperCase\<close>, \<^verbatim>\<open>toLowerCase\<close> and \<^verbatim>\<open>includes\<close> of a string, on ASCII letters.\<close>

definition upper_char :: "char \<Rightarrow> char" where
  "upper_char c =
     (if 97 \<le> (of_char c :: nat) \<and> (of_char c :: nat) \<le> 122 then char_of ((of_char c :: nat) - 32) else c)"

definition lower_char :: "char \<Rightarrow> char" where
  "lower_char c =
     (if 65 \<le> (of_char c :: nat) \<and> (of_char c :: nat) \<le> 90 then char_of ((of_char c :: nat) + 32) else c)"

definition toUpperCase :: "jsval \<Rightarrow> js_error + string" where
  "toUpperCase v =
     (case v of Str s \<Rightarrow> Inr (map upper_char s)
      | _ \<Rightarrow> Inl (JsError False ''TypeError'' ''toUpperCase is not a function''))"

fun js_includes :: "string \<Rightarrow> string \<Rightarrow> bool" where
  "js_includes [] t = (t = [])"
| "js_includes (c # cs) t = (take (length t) (c # cs) = t \<or> js_includes cs t)"

text \<open>Lines 215 to 223: the first price of the item, its amount and its currency.\<close>

definition priceData_of :: "product \<Rightarrow> jsval" where
  "priceData_of item = (case prices item of Some (p # ps) \<Rightarrow> p | _ \<Rightarrow> Null)"

definition rawAmount_of :: "jsval \<Rightarrow> jsval" where
  "rawAmount_of priceData =
     js_coalesce (js_coalesce (opt_prop priceData ''price_amount'') (opt_prop priceData ''priceAmount''))
       (Num 0)"

definition rawCurrency_of :: "jsval \<Rightarrow> jsval" where
  "rawCurrency_of priceData =
     js_or (js_or (opt_prop priceData ''price_currency'') (opt_prop priceData ''priceCurrency''))
       (Str ''usd'')"

record formatted_product =
  fp_id :: jsval
  fp_name :: string
  fp_description :: jsval
  fp_price :: quotient
  fp_currency :: string
  fp_features :: "jsval list"
  fp_popular :: bool

fun descriptions :: "jsval list \<Rightarrow> js_error + jsval list" where
  "descriptions [] = Inr []"
| "descriptions (benefit # bs) =
     (case get_prop benefit ''description'' of
        Inl e \<Rightarrow> Inl e
      | Inr d \<Rightarrow> (case descriptions bs of Inl e \<Rightarrow> Inl e | Inr ds \<Rightarrow> Inr (d # ds)))"

text \<open>The body of the loop over the products.\<close>

definition format_product :: "product \<Rightarrow> js_error + formatted_product" where
  "format_product item =
     (let priceData = priceData_of item;
          rawAmount = rawAmount_of priceData;
          price = div100 rawAmount;
          rawCurrency = rawCurrency_of priceData
      in case toUpperCase rawCurrency of
           Inl e \<Rightarrow> Inl e
         | Inr currency \<Rightarrow>
             (case (case benefits item of Some bs \<Rightarrow> descriptions bs | None \<Rightarrow> Inr []) of
                Inl e \<Rightarrow> Inl e
              | Inr features \<Rightarrow>
                  Inr \<lparr>fp_id = product_id item,
                       fp_name = product_name item,
                       fp_description = js_or (product_description item) (Str []),
                       fp_price = price,
                       fp_currency = currency,
                       fp_features = features,
                       fp_popular = js_includes (map lower_char (product_name item)) ''pro''\<rparr>))"

fun format_products :: "product list \<Rightarrow> js_error + formatted_product list" where
  "format_products [] = Inr []"
| "format_products (item # items) =
     (case format_product item of
        Inl e \<Rightarrow> Inl e
      | Inr f \<Rightarrow> (case format_products items of Inl e \<Rightarrow> Inl e | Inr fs \<Rightarrow> Inr (f # fs)))"

datatype products_response = Products "formatted_product list" | Failed nat string

definition await_products_list :: "'s providers \<Rightarrow> jsval \<Rightarrow> ('s, product list option) io" where
  "await_products_list P args w = (polar_products_list P args, record_call (Polar_products_list args) w)"

definition products :: "'s providers \<Rightarrow> 's world \<Rightarrow> products_response \<times> 's world" where
  "products P w =
     (case await_products_list P (Obj [(''isRecurring'', Bool True), (''isArchived'', Bool False)]) w of
        (Inl error, w') \<Rightarrow> (Failed 500 ''Falha ao carregar os produtos.'', w')
      | (Inr items, w') \<Rightarrow>
          (case format_products (case items of Some xs \<Rightarrow> xs | None \<Rightarrow> []) of
             Inl error \<Rightarrow> (Failed 500 ''Falha ao carregar os produtos.'', w')
           | Inr formattedProducts \<Rightarrow> (Products formattedProducts, w')))"

section \<open>The identity provider's store\<close>

text \<open>
  Modelled from the spec: the identity provider's SDK is not part of the repository. The
  spec's data model describes the user metadata as a mapping owned per identity by the
  identity provider, read and overwritten wholesale by this system. The store maps each
  identity the provider knows to its public metadata; reading or updating an identity it
  does not know throws.
\<close>

type_synonym clerk_store = "jsval \<rightharpoonup> jsval"

definition unknown_user :: js_error where
  "unknown_user = JsError False ''ClerkAPIResponseError'' ''Not Found''"

definition store_getUser :: "clerk_store \<Rightarrow> jsval \<Rightarrow> js_error + jsval" where
  "store_getUser s userId =
     (case s userId of
        None \<Rightarrow> Inl unknown_user
      | Some metadata \<Rightarrow> Inr (Obj [(''id'', userId), (''publicMetadata'', metadata)]))"

definition store_updateUserMetadata :: "clerk_store \<Rightarrow> jsval \<Rightarrow> jsval \<Rightarrow> js_error + clerk_store" where
  "store_updateUserMetadata s userId params =
     (case s userId of
        None \<Rightarrow> Inl unknown_user
      | Some metadata \<Rightarrow> Inr (s(userId \<mapsto> property params ''publicMetadata'')))"

text \<open>
  Providers for the examples: the verification, the checkout lookup and the checkout
  creation answer with the given results, and the identity provider is the store above.
\<close>

definition example_providers ::
  "js_error + jsval \<Rightarrow> js_error + jsval \<Rightarrow> js_error + jsval \<Rightarrow> clerk_store providers" where
  "example_providers verified looked_up created =
     \<lparr>validateEvent = (\<lambda>b h s. verified),
      polar_checkouts_get = (\<lambda>a. looked_up),
      polar_checkouts_create = (\<lambda>a. created),
      polar_customerSessions_create = (\<lambda>a. Inr (Obj [(''customerPortalUrl'', Str ''https://portal'')])),
      polar_products_list = (\<lambda>a. Inr None),
      clerk_users_getUser = store_getUser,
      clerk_users_updateUserMetadata = store_updateUserMetadata\<rparr>"

definition example_env :: config where
  "example_env = \<lparr>FRONTEND_URL = Some ''https://app'', POLAR_WEBHOOK_SECRET = Some ''secret''\<rparr>"

definition example_request :: "jsval \<Rightarrow> jsval \<Rightarrow> request" where
  "example_request b userId = \<lparr>req_body = b, req_headers = Obj [], getAuth_userId = userId\<rparr>"

definition example_event :: "string \<Rightarrow> jsval" where
  "example_event t =
     Obj [(''type'', Str t),
          (''data'', Obj [(''id'', Str ''sub_2''), (''customerId'', Str ''cus_1''),
                          (''checkoutId'', Str ''co_1'')])]"

definition example_checkout :: jsval where
  "example_checkout = Obj [(''id'', Str ''co_1''), (''customerMetadata'', Obj [(''clerk_user_id'', Str ''user_1'')])]"

definition example_world :: "clerk_store world" where
  "example_world =
     \<lparr>clerk = [Str ''user_1'' \<mapsto> Obj [(''subscriptionId'', Str ''sub_1''), (''theme'', Str ''dark'')]],
      calls = []\<rparr>"

definition verification_error :: js_error where
  "verification_error = JsError True ''WebhookVerificationError'' ''No matching signature found''"





section \<open>Properties\<close>

subsection \<open>Auxiliary facts\<close>

lemmas io_defs = bind_def lift_def ret_def await_polar_def await_getUser_def
  await_updateUserMetadata_def record_call_def when_type_def

lemma property_defined_not_nullish: "property v k \<noteq> Undefined \<Longrightarrow> \<not> nullish v"
  by (cases v) simp_all

lemma truthy_property_not_nullish: "truthy (property v k) \<Longrightarrow> \<not> nullish v"
  by (cases v) simp_all

lemma truthy_opt_prop_not_nullish: "truthy (opt_prop v k) \<Longrightarrow> \<not> nullish v"
  by (cases v) (simp_all add: opt_prop_def)

lemma get_prop_not_nullish: "\<not> nullish v \<Longrightarrow> get_prop v k = Inr (property v k)"
  by (simp add: get_prop_def)


subsection \<open>The webhook receiver\<close>

text \<open>
  C1. When the verification of the signature fails, that is when \<^verbatim>\<open>validateEvent\<close> throws
  a \<^verbatim>\<open>WebhookVerificationError\<close>, the handler answers 403 with an empty body and leaves the
  world as it was: the identity provider's store is unchanged and no call to either
  provider is made, whatever the body, the headers and the declared type of the event.
\<close>

theorem webhook_rejects_unverified:
  assumes "validateEvent P (req_body req) (req_headers req) (env_value (POLAR_WEBHOOK_SECRET env)) = Inl error"
      and "instanceof_WebhookVerificationError error"
  shows "webhook P env req w = (\<lparr>status = 403, sent = Send []\<rparr>, w)"
  using assms by (simp add: webhook_def webhook_try_def webhook_catch_def bind_def lift_def)

theorem webhook_rejects_unverified_witness:
  "validateEvent (example_providers (Inl verification_error) (Inr example_checkout) (Inr Null))
     (req_body (example_request (Str ''subscription.active'') Null))
     (req_headers (example_request (Str ''subscription.active'') Null))
     (env_value (POLAR_WEBHOOK_SECRET example_env)) = Inl verification_error
   \<and> instanceof_WebhookVerificationError verification_error
   \<and> webhook (example_providers (Inl verification_error) (Inr example_checkout) (Inr Null)) example_env
       (example_request (Str ''subscription.active'') Null) example_world
     = (\<lparr>status = 403, sent = Send []\<rparr>, example_world)"
proof -
  have v: "validateEvent (example_providers (Inl verification_error) (Inr example_checkout) (Inr Null))
     (req_body (example_request (Str ''subscription.active'') Null))
     (req_headers (example_request (Str ''subscription.active'') Null))
     (env_value (POLAR_WEBHOOK_SECRET example_env)) = Inl verification_error"
    by (simp add: example_providers_def)
  have i: "instanceof_WebhookVerificationError verification_error"
    by (simp add: verification_error_def)
  show ?thesis
    using v i webhook_rejects_unverified [OF v i, of example_world] by simp
qed

text \<open>
  C2. A verified \<^verbatim>\<open>subscription.active\<close> event whose checkout reference is present and
  resolves to a checkout carrying the identity \<open>U\<close> in its metadata: the handler looks the
  checkout up, then asks the identity provider to set the public metadata of \<open>U\<close> to the
  object with exactly the four fields subscriptionId (the event's subscription id),
  customerId (the event's customer id), plan \<^verbatim>\<open>"pro"\<close> and status \<^verbatim>\<open>"active"\<close>, and answers
  202. With the identity provider's store, where \<open>U\<close> is a known identity, the stored
  metadata of \<open>U\<close> is afterwards exactly that object and no other identity is touched.
\<close>

theorem active_event_sets_metadata:
  assumes verified: "validateEvent P (req_body req) (req_headers req) (env_value (POLAR_WEBHOOK_SECRET env)) = Inr event"
    and active: "property event ''type'' = Str ''subscription.active''"
    and data: "property event ''data'' = subscription"
    and reference: "truthy (property subscription ''checkoutId'')"
    and resolves: "polar_checkouts_get P (Obj [(''id'', property subscription ''checkoutId'')]) = Inr checkout"
    and carries: "opt_prop (property checkout ''customerMetadata'') ''clerk_user_id'' = U"
    and present: "truthy U"
    and store: "clerk_users_updateUserMetadata P = store_updateUserMetadata"
    and known: "clerk w U = Some previous"
  shows "webhook P env req w =
    (\<lparr>status = 202, sent = Send []\<rparr>,
     \<lparr>clerk = (clerk w)(U \<mapsto>
          Obj [(''subscriptionId'', property subscription ''id''),
               (''customerId'', property subscription ''customerId''),
               (''plan'', Str ''pro''),
               (''status'', Str ''active'')]),
      calls = calls w @
        [Polar_checkouts_get (Obj [(''id'', property subscription ''checkoutId'')]),
         Clerk_users_updateUserMetadata U
           (Obj [(''publicMetadata'',
              Obj [(''subscriptionId'', property subscription ''id''),
                   (''customerId'', property subscription ''customerId''),
                   (''plan'', Str ''pro''),
                   (''status'', Str ''active'')])])]\<rparr>)"
proof -
  have e: "\<not> nullish event"
    using active by (intro property_defined_not_nullish [of event "''type''"]) simp
  have s: "\<not> nullish subscription"
    using reference by (rule truthy_property_not_nullish)
  have m: "\<not> nullish (property checkout ''customerMetadata'')"
    using carries present by (intro truthy_opt_prop_not_nullish [of _ "''clerk_user_id''"]) simp
  have c: "\<not> nullish checkout"
    using m by (intro property_defined_not_nullish [of checkout "''customerMetadata''"]) auto
  have active_branch:
    "subscription_active P event w =
       (Inr (), \<lparr>clerk = (clerk w)(U \<mapsto>
          Obj [(''subscriptionId'', property subscription ''id''),
               (''customerId'', property subscription ''customerId''),
               (''plan'', Str ''pro''),
               (''status'', Str ''active'')]),
         calls = calls w @
          [Polar_checkouts_get (Obj [(''id'', property subscription ''checkoutId'')]),
           Clerk_users_updateUserMetadata U
             (Obj [(''publicMetadata'',
                Obj [(''subscriptionId'', property subscription ''id''),
                     (''customerId'', property subscription ''customerId''),
                     (''plan'', Str ''pro''),
                     (''status'', Str ''active'')])])]\<rparr>)"
    using e s c data reference resolves carries present store known
    by (simp add: subscription_active_def io_defs get_prop_not_nullish store_updateUserMetadata_def)
  show ?thesis
    using verified e active active_branch
    by (simp add: webhook_def webhook_try_def io_defs get_prop_not_nullish)
qed

theorem active_event_sets_metadata_witness:
  "webhook (example_providers (Inr (example_event ''subscription.active'')) (Inr example_checkout) (Inr Null))
     example_env (example_request (Str ''raw'') Null) example_world =
   (\<lparr>status = 202, sent = Send []\<rparr>,
    \<lparr>clerk = (clerk example_world)(Str ''user_1'' \<mapsto>
         Obj [(''subscriptionId'', Str ''sub_2''), (''customerId'', Str ''cus_1''),
              (''plan'', Str ''pro''), (''status'', Str ''active'')]),
     calls =
       [Polar_checkouts_get (Obj [(''id'', Str ''co_1'')]),
        Clerk_users_updateUserMetadata (Str ''user_1'')
          (Obj [(''publicMetadata'',
             Obj [(''subscriptionId'', Str ''sub_2''), (''customerId'', Str ''cus_1''),
                  (''plan'', Str ''pro''), (''status'', Str ''active'')])])]\<rparr>)"
  using active_event_sets_metadata
    [where P = "example_providers (Inr (example_event ''subscription.active'')) (Inr example_checkout) (Inr Null)"
       and env = example_env and req = "example_request (Str ''raw'') Null" and w = example_world
       and event = "example_event ''subscription.active''"
       and subscription = "Obj [(''id'', Str ''sub_2''), (''customerId'', Str ''cus_1''), (''checkoutId'', Str ''co_1'')]"
       and checkout = example_checkout and U = "Str ''user_1''"
       and previous = "Obj [(''subscriptionId'', Str ''sub_1''), (''theme'', Str ''dark'')]"]
  by (simp add: example_providers_def example_event_def example_checkout_def example_world_def
      opt_prop_def)

text \<open>
  C3. A verified \<^verbatim>\<open>subscription.revoked\<close> event whose checkout reference is present and
  resolves to a checkout carrying the identity \<open>U\<close>, where the identity provider's store
  holds the metadata object \<open>current\<close> for \<open>U\<close>: the handler looks the checkout up, reads the
  user, and sets the metadata of \<open>U\<close> to an object \<open>merged\<close> that agrees with \<open>current\<close> on
  every key except the four it sets: subscriptionId keeps its prior value when that value
  is set (truthy) and is the event's subscription id otherwise, customerId is the event's
  customer id, plan is \<^verbatim>\<open>"free"\<close> and status is \<^verbatim>\<open>"revoked"\<close>. The answer is 202.
\<close>

theorem revoked_event_merges_metadata:
  assumes verified: "validateEvent P (req_body req) (req_headers req) (env_value (POLAR_WEBHOOK_SECRET env)) = Inr event"
    and revoked: "property event ''type'' = Str ''subscription.revoked''"
    and data: "property event ''data'' = subscription"
    and reference: "truthy (property subscription ''checkoutId'')"
    and resolves: "polar_checkouts_get P (Obj [(''id'', property subscription ''checkoutId'')]) = Inr checkout"
    and carries: "opt_prop (property checkout ''customerMetadata'') ''clerk_user_id'' = U"
    and present: "truthy U"
    and store_read: "clerk_users_getUser P = store_getUser"
    and store_write: "clerk_users_updateUserMetadata P = store_updateUserMetadata"
    and prior: "clerk w U = Some (Obj current)"
  shows "\<exists>merged.
    webhook P env req w =
      (\<lparr>status = 202, sent = Send []\<rparr>,
       \<lparr>clerk = (clerk w)(U \<mapsto> Obj merged),
        calls = calls w @
          [Polar_checkouts_get (Obj [(''id'', property subscription ''checkoutId'')]),
           Clerk_users_getUser U,
           Clerk_users_updateUserMetadata U (Obj [(''publicMetadata'', Obj merged)])]\<rparr>)
    \<and> map_of merged =
        (map_of current)
          (''subscriptionId'' \<mapsto>
             (if truthy (property (Obj current) ''subscriptionId'')
              then property (Obj current) ''subscriptionId''
              else property subscription ''id''),
           ''customerId'' \<mapsto> property subscription ''customerId'',
           ''plan'' \<mapsto> Str ''free'',
           ''status'' \<mapsto> Str ''revoked'')"
proof -
  define merged where "merged =
    AList.update ''status'' (Str ''revoked'')
      (AList.update ''plan'' (Str ''free'')
      (AList.update ''customerId'' (property subscription ''customerId'')
      (AList.update ''subscriptionId''
         (js_or (property (Obj current) ''subscriptionId'') (property subscription ''id''))
      current)))"
  have e: "\<not> nullish event"
    using revoked by (intro property_defined_not_nullish [of event "''type''"]) simp
  have s: "\<not> nullish subscription"
    using reference by (rule truthy_property_not_nullish)
  have m: "\<not> nullish (property checkout ''customerMetadata'')"
    using carries present by (intro truthy_opt_prop_not_nullish [of _ "''clerk_user_id''"]) simp
  have c: "\<not> nullish checkout"
    using m by (intro property_defined_not_nullish [of checkout "''customerMetadata''"]) auto
  have revoked_branch:
    "subscription_revoked P event w =
       (Inr (), \<lparr>clerk = (clerk w)(U \<mapsto> Obj merged),
         calls = calls w @
          [Polar_checkouts_get (Obj [(''id'', property subscription ''checkoutId'')]),
           Clerk_users_getUser U,
           Clerk_users_updateUserMetadata U (Obj [(''publicMetadata'', Obj merged)])]\<rparr>)"
    using e s c data reference resolves carries present store_read store_write prior
    by (simp add: subscription_revoked_def io_defs get_prop_not_nullish store_getUser_def
        store_updateUserMetadata_def js_or_def merged_def)
  have skip: "\<not> strict_eq (property event ''type'') (Str ''subscription.active'')"
    using revoked by simp
  have result: "webhook P env req w =
      (\<lparr>status = 202, sent = Send []\<rparr>,
       \<lparr>clerk = (clerk w)(U \<mapsto> Obj merged),
        calls = calls w @
          [Polar_checkouts_get (Obj [(''id'', property subscription ''checkoutId'')]),
           Clerk_users_getUser U,
           Clerk_users_updateUserMetadata U (Obj [(''publicMetadata'', Obj merged)])]\<rparr>)"
    using verified e revoked revoked_branch
    by (simp add: webhook_def webhook_try_def io_defs get_prop_not_nullish)
  have fields: "map_of merged =
        (map_of current)
          (''subscriptionId'' \<mapsto>
             (if truthy (property (Obj current) ''subscriptionId'')
              then property (Obj current) ''subscriptionId''
              else property subscription ''id''),
           ''customerId'' \<mapsto> property subscription ''customerId'',
           ''plan'' \<mapsto> Str ''free'',
           ''status'' \<mapsto> Str ''revoked'')"
    unfolding merged_def update_conv' js_or_def by (rule refl)
  from result fields show ?thesis by blast
qed

theorem revoked_event_merges_metadata_witness:
  "\<exists>merged.
    webhook (example_providers (Inr (example_event ''subscription.revoked'')) (Inr example_checkout) (Inr Null))
      example_env (example_request (Str ''raw'') Null) example_world =
      (\<lparr>status = 202, sent = Send []\<rparr>,
       \<lparr>clerk = (clerk example_world)(Str ''user_1'' \<mapsto> Obj merged),
        calls =
          [Polar_checkouts_get (Obj [(''id'', Str ''co_1'')]),
           Clerk_users_getUser (Str ''user_1''),
           Clerk_users_updateUserMetadata (Str ''user_1'') (Obj [(''publicMetadata'', Obj merged)])]\<rparr>)
    \<and> map_of merged =
        [''theme'' \<mapsto> Str ''dark'', ''subscriptionId'' \<mapsto> Str ''sub_1'',
         ''customerId'' \<mapsto> Str ''cus_1'', ''plan'' \<mapsto> Str ''free'', ''status'' \<mapsto> Str ''revoked'']"
  using revoked_event_merges_metadata
    [where P = "example_providers (Inr (example_event ''subscription.revoked'')) (Inr example_checkout) (Inr Null)"
       and env = example_env and req = "example_request (Str ''raw'') Null" and w = example_world
       and event = "example_event ''subscription.revoked''"
       and subscription = "Obj [(''id'', Str ''sub_2''), (''customerId'', Str ''cus_1''), (''checkoutId'', Str ''co_1'')]"
       and checkout = example_checkout and U = "Str ''user_1''"
       and current = "[(''subscriptionId'', Str ''sub_1''), (''theme'', Str ''dark'')]"]
  by (simp add: example_providers_def example_event_def example_checkout_def example_world_def
      opt_prop_def fun_upd_twist)


subsection \<open>Downstream failures of the webhook receiver\<close>








subsection \<open>The authenticated endpoints\<close>

text \<open>
  C5. The claim, as written, fails for \<^verbatim>\<open>/create-checkout\<close>: the handler checks the body
  before the caller's identity, so a request without a valid token and with an empty body
  is answered with 400.
\<close>

theorem unauthenticated_empty_checkout_counterexample:
  "\<not> truthy (getAuth_userId (example_request (Obj []) Null))
   \<and> status (fst (create_checkout (example_providers (Inr Null) (Inr Null) (Inr example_checkout))
        example_env (example_request (Obj []) Null) example_world)) = 400
   \<and> status (fst (create_checkout (example_providers (Inr Null) (Inr Null) (Inr example_checkout))
        example_env (example_request (Obj []) Null) example_world)) \<noteq> 401"
  by (simp add: example_request_def create_checkout_def body_missing_or_empty_def Object_keys_def)

text \<open>
  C5, amended. A request that carries no valid bearer token (\<^verbatim>\<open>getAuth\<close> reports no
  \<^verbatim>\<open>userId\<close>) is answered with 401 by \<^verbatim>\<open>/test-auth\<close> and \<^verbatim>\<open>/api/create-portal-session\<close>; by
  \<^verbatim>\<open>/create-checkout\<close> it is answered with 401 when its body is not empty and with 400
  when its body is missing or empty. In every case the world is unchanged: no call to the
  payments provider or to the identity provider is made.
\<close>

theorem unauthenticated_requests:
  assumes "\<not> truthy (getAuth_userId req)"
  shows "test_auth req w = (unauthorized, w)
    \<and> create_portal_session P req w = (unauthorized, w)
    \<and> create_checkout P env req w =
        (if body_missing_or_empty (req_body req)
         then \<lparr>status = 400, sent = Json (Obj [(''error'', Str ''Request body is missing or empty'')])\<rparr>
         else unauthorized, w)
    \<and> status unauthorized = 401"
  using assms
  by (simp add: test_auth_def create_portal_session_def create_portal_session_try_def
      create_checkout_def unauthorized_def ret_def Let_def)

theorem unauthenticated_requests_witness:
  "\<not> truthy (getAuth_userId (example_request (Obj [(''products'', Arr [Str ''p1''])]) Null))
   \<and> test_auth (example_request (Obj [(''products'', Arr [Str ''p1''])]) Null) example_world
       = (unauthorized, example_world)
   \<and> create_portal_session (example_providers (Inr Null) (Inr Null) (Inr example_checkout))
         (example_request (Obj [(''products'', Arr [Str ''p1''])]) Null) example_world
       = (unauthorized, example_world)
   \<and> create_checkout (example_providers (Inr Null) (Inr Null) (Inr example_checkout)) example_env
         (example_request (Obj [(''products'', Arr [Str ''p1''])]) Null) example_world
       = (unauthorized, example_world)
   \<and> status unauthorized = 401"
  using unauthenticated_requests
    [where req = "example_request (Obj [(''products'', Arr [Str ''p1''])]) Null"
       and w = example_world and env = example_env
       and P = "example_providers (Inr Null) (Inr Null) (Inr example_checkout)"]
  by (simp add: example_request_def body_missing_or_empty_def Object_keys_def)


subsection \<open>The checkout creator\<close>

lemma body_missing_or_empty_iff: "body_missing_or_empty b \<longleftrightarrow> \<not> truthy b \<or> spread b = []"
  by (cases b) (simp_all add: body_missing_or_empty_def Object_keys_def)

lemma create_checkout_authenticated:
  assumes "truthy (getAuth_userId req)" and "\<not> body_missing_or_empty (req_body req)"
  shows "create_checkout P env req w =
    (case polar_checkouts_create P (Obj (checkoutOptions env (req_body req) (getAuth_userId req))) of
       Inl error \<Rightarrow> create_checkout_catch error
     | Inr result \<Rightarrow>
         (if nullish result then create_checkout_catch (TypeError ''customerMetadata'')
          else \<lparr>status =
                  (if strict_eq (opt_prop (property result ''customerMetadata'') ''clerk_user_id'')
                        (getAuth_userId req)
                   then 200 else 201),
                sent = Json result\<rparr>),
     w\<lparr>calls := calls w @
          [Polar_checkouts_create (Obj (checkoutOptions env (req_body req) (getAuth_userId req)))]\<rparr>)"
  using assms
  by (simp add: create_checkout_def create_checkout_try_def io_defs get_prop_def Let_def
      split: sum.splits)

lemma checkoutOptions_customerMetadata:
  "map_of (checkoutOptions env b U) ''customerMetadata'' =
     Some (Obj (AList.update ''clerk_user_id'' U
       (spread (js_or (js_or (property b ''customerMetadata'') (property b ''customer_metadata''))
                  (Obj [])))))"
  by (simp add: checkoutOptions_def delete_conv' update_conv')

text \<open>
  C6. A \<^verbatim>\<open>/create-checkout\<close> request from the authenticated identity \<open>U\<close> with a body that
  is not empty: the handler calls the payments provider once, with options whose
  \<^verbatim>\<open>customerMetadata.clerk_user_id\<close> is \<open>U\<close> whatever the body supplied; when the provider
  returns a session, that session is sent to the caller, with status 200 when the
  session's \<^verbatim>\<open>customerMetadata.clerk_user_id\<close> is \<open>U\<close> and with status 201 otherwise.
\<close>

theorem checkout_carries_identity:
  assumes authenticated: "getAuth_userId req = U" "truthy U"
    and body: "truthy (req_body req)" "spread (req_body req) \<noteq> []"
  shows "calls (snd (create_checkout P env req w)) =
      calls w @ [Polar_checkouts_create (Obj (checkoutOptions env (req_body req) U))]
    \<and> property (property (Obj (checkoutOptions env (req_body req) U)) ''customerMetadata'')
        ''clerk_user_id'' = U
    \<and> (polar_checkouts_create P (Obj (checkoutOptions env (req_body req) U)) = Inr session
        \<and> \<not> nullish session
      \<longrightarrow> fst (create_checkout P env req w) =
            \<lparr>status =
               (if strict_eq (opt_prop (property session ''customerMetadata'') ''clerk_user_id'') U
                then 200 else 201),
             sent = Json session\<rparr>)"
proof -
  have nonempty: "\<not> body_missing_or_empty (req_body req)"
    using body by (simp add: body_missing_or_empty_iff)
  have run: "create_checkout P env req w =
    (case polar_checkouts_create P (Obj (checkoutOptions env (req_body req) U)) of
       Inl error \<Rightarrow> create_checkout_catch error
     | Inr result \<Rightarrow>
         (if nullish result then create_checkout_catch (TypeError ''customerMetadata'')
          else \<lparr>status =
                  (if strict_eq (opt_prop (property result ''customerMetadata'') ''clerk_user_id'') U
                   then 200 else 201),
                sent = Json result\<rparr>),
     w\<lparr>calls := calls w @ [Polar_checkouts_create (Obj (checkoutOptions env (req_body req) U))]\<rparr>)"
    using create_checkout_authenticated [of req P env w] authenticated(2) nonempty
    unfolding authenticated(1) by simp
  have sent_call: "calls (snd (create_checkout P env req w)) =
      calls w @ [Polar_checkouts_create (Obj (checkoutOptions env (req_body req) U))]"
    by (simp add: run)
  have identity: "property (property (Obj (checkoutOptions env (req_body req) U)) ''customerMetadata'')
        ''clerk_user_id'' = U"
    by (simp add: checkoutOptions_customerMetadata update_conv')
  have answer: "polar_checkouts_create P (Obj (checkoutOptions env (req_body req) U)) = Inr session
        \<and> \<not> nullish session
      \<longrightarrow> fst (create_checkout P env req w) =
            \<lparr>status =
               (if strict_eq (opt_prop (property session ''customerMetadata'') ''clerk_user_id'') U
                then 200 else 201),
             sent = Json session\<rparr>"
    by (simp add: run)
  from sent_call identity answer show ?thesis by (intro conjI)
qed

theorem checkout_carries_identity_witness:
  "calls (snd (create_checkout (example_providers (Inr Null) (Inr Null) (Inr example_checkout)) example_env
      (example_request
         (Obj [(''products'', Arr [Str ''p1'']),
               (''customerMetadata'', Obj [(''clerk_user_id'', Str ''user_7''), (''campaign'', Str ''spring'')])])
         (Str ''user_1''))
      example_world)) =
    [Polar_checkouts_create
       (Obj [(''products'', Arr [Str ''p1'']),
             (''customerMetadata'', Obj [(''clerk_user_id'', Str ''user_1''), (''campaign'', Str ''spring'')]),
             (''successUrl'', Str ''https://app/?payment=success&checkout_id={CHECKOUT_ID}'')])]
   \<and> fst (create_checkout (example_providers (Inr Null) (Inr Null) (Inr example_checkout)) example_env
      (example_request
         (Obj [(''products'', Arr [Str ''p1'']),
               (''customerMetadata'', Obj [(''clerk_user_id'', Str ''user_7''), (''campaign'', Str ''spring'')])])
         (Str ''user_1''))
      example_world) = \<lparr>status = 200, sent = Json example_checkout\<rparr>"
  using checkout_carries_identity
    [where P = "example_providers (Inr Null) (Inr Null) (Inr example_checkout)" and env = example_env
       and w = example_world and U = "Str ''user_1''" and session = example_checkout
       and req = "example_request
         (Obj [(''products'', Arr [Str ''p1'']),
               (''customerMetadata'', Obj [(''clerk_user_id'', Str ''user_7''), (''campaign'', Str ''spring'')])])
         (Str ''user_1'')"]
  by (simp add: example_request_def example_providers_def example_env_def example_world_def
      example_checkout_def checkoutOptions_def js_or_def opt_prop_def)

text \<open>
  C7. A \<^verbatim>\<open>/create-checkout\<close> request whose body is missing (falsy) or has no own property
  is answered with 400, and the world is unchanged: the payments provider is not called.
\<close>

theorem empty_body_rejected:
  assumes "\<not> truthy (req_body req) \<or> spread (req_body req) = []"
  shows "create_checkout P env req w =
    (\<lparr>status = 400, sent = Json (Obj [(''error'', Str ''Request body is missing or empty'')])\<rparr>, w)"
  using assms by (simp add: create_checkout_def body_missing_or_empty_iff)

theorem empty_body_rejected_witness:
  "create_checkout (example_providers (Inr Null) (Inr Null) (Inr example_checkout)) example_env
     (example_request Undefined (Str ''user_1'')) example_world =
    (\<lparr>status = 400, sent = Json (Obj [(''error'', Str ''Request body is missing or empty'')])\<rparr>,
     example_world)
   \<and> create_checkout (example_providers (Inr Null) (Inr Null) (Inr example_checkout)) example_env
     (example_request (Obj []) (Str ''user_1'')) example_world =
    (\<lparr>status = 400, sent = Json (Obj [(''error'', Str ''Request body is missing or empty'')])\<rparr>,
     example_world)"
  using empty_body_rejected
      [where req = "example_request Undefined (Str ''user_1'')" and env = example_env
         and w = example_world and P = "example_providers (Inr Null) (Inr Null) (Inr example_checkout)"]
    empty_body_rejected
      [where req = "example_request (Obj []) (Str ''user_1'')" and env = example_env
         and w = example_world and P = "example_providers (Inr Null) (Inr Null) (Inr example_checkout)"]
  by (simp add: example_request_def)

text \<open>
  C10. For an authenticated \<^verbatim>\<open>/create-checkout\<close> request with a body that is not empty, the
  options sent to the payments provider have no \<^verbatim>\<open>customer_metadata\<close> key, and their
  \<^verbatim>\<open>customerMetadata\<close> is an object holding the caller's identity under \<^verbatim>\<open>clerk_user_id\<close>
  and otherwise the properties of the metadata the caller supplied: those under
  \<^verbatim>\<open>customerMetadata\<close> when that value is truthy, else those under \<^verbatim>\<open>customer_metadata\<close> when
  that value is truthy, else none.
\<close>

theorem checkout_metadata_merged:
  assumes authenticated: "getAuth_userId req = U" "truthy U"
    and body: "truthy (req_body req)" "spread (req_body req) \<noteq> []"
  shows "\<exists>opts merged.
      calls (snd (create_checkout P env req w)) = calls w @ [Polar_checkouts_create (Obj opts)]
    \<and> ''customer_metadata'' \<notin> fst ` set opts
    \<and> map_of opts ''customerMetadata'' = Some (Obj merged)
    \<and> map_of merged =
        (map_of (spread
           (if truthy (property (req_body req) ''customerMetadata'')
            then property (req_body req) ''customerMetadata''
            else if truthy (property (req_body req) ''customer_metadata'')
            then property (req_body req) ''customer_metadata''
            else Obj [])))
        (''clerk_user_id'' \<mapsto> U)"
proof -
  let ?supplied = "js_or (js_or (property (req_body req) ''customerMetadata'')
                                (property (req_body req) ''customer_metadata'')) (Obj [])"
  let ?opts = "checkoutOptions env (req_body req) U"
  let ?merged = "AList.update ''clerk_user_id'' U (spread ?supplied)"
  have nonempty: "\<not> body_missing_or_empty (req_body req)"
    using body by (simp add: body_missing_or_empty_iff)
  have "calls (snd (create_checkout P env req w)) = calls w @ [Polar_checkouts_create (Obj ?opts)]"
    using create_checkout_authenticated [of req P env w] authenticated(2) nonempty
    unfolding authenticated(1) by simp
  moreover have "''customer_metadata'' \<notin> fst ` set ?opts"
    by (simp add: checkoutOptions_def delete_notin_dom)
  moreover have "map_of ?opts ''customerMetadata'' = Some (Obj ?merged)"
    by (rule checkoutOptions_customerMetadata)
  moreover have "map_of ?merged =
        (map_of (spread
           (if truthy (property (req_body req) ''customerMetadata'')
            then property (req_body req) ''customerMetadata''
            else if truthy (property (req_body req) ''customer_metadata'')
            then property (req_body req) ''customer_metadata''
            else Obj [])))
        (''clerk_user_id'' \<mapsto> U)"
    by (simp add: update_conv' js_or_def)
  ultimately show ?thesis by blast
qed

theorem checkout_metadata_merged_witness:
  "\<exists>opts merged.
      calls (snd (create_checkout (example_providers (Inr Null) (Inr Null) (Inr example_checkout)) example_env
        (example_request
           (Obj [(''products'', Arr [Str ''p1'']),
                 (''customer_metadata'', Obj [(''campaign'', Str ''spring'')])])
           (Str ''user_1''))
        example_world)) = [Polar_checkouts_create (Obj opts)]
    \<and> ''customer_metadata'' \<notin> fst ` set opts
    \<and> map_of opts ''customerMetadata'' = Some (Obj merged)
    \<and> map_of merged = [''campaign'' \<mapsto> Str ''spring'', ''clerk_user_id'' \<mapsto> Str ''user_1'']"
  using checkout_metadata_merged
    [where P = "example_providers (Inr Null) (Inr Null) (Inr example_checkout)" and env = example_env
       and w = example_world and U = "Str ''user_1''"
       and req = "example_request
           (Obj [(''products'', Arr [Str ''p1'']),
                 (''customer_metadata'', Obj [(''campaign'', Str ''spring'')])])
           (Str ''user_1'')"]
  by (simp add: example_request_def example_world_def)

subsection \<open>The product lister\<close>






subsection \<open>The two variants of the webhook receiver\<close>




end
